theory Spec2Isabelle
  imports Main
begin

section \<open>React elements\<close>

text \<open>
  A JSX attribute value as the sources write them: a string literal
  (\<open>className="block"\<close>), a number in braces (\<open>number={1}\<close>), an object of style
  declarations (\<open>style={{ backgroundImage: "..." }}\<close>), or a function (an event
  handler or another callback; the name of the function stands for it).
\<close>

datatype prop_value =
    PStr string
  | PNum int
  | PStyle "(string \<times> string) list"
  | PFun string

type_synonym props = "(string \<times> prop_value) list"

text \<open>
  What a function component returns: a host element (tag, attributes in the order
  written, children in document order), an element of another component (the
  identifier used in the JSX, and the props passed to it; every such element in the
  sources is self-closing), or a text child. JSX drops whitespace-only text that
  contains a line break, comments in braces, and trims the lines of a text child.
\<close>

datatype node =
    Element string props "node list"
  | Component string props
  | Text string

fun children :: "node \<Rightarrow> node list" where
  "children (Element t ps cs) = cs"
| "children (Component n ps) = []"
| "children (Text s) = []"

text \<open>The component elements of a tree, in document order.\<close>

fun components :: "node \<Rightarrow> (string \<times> props) list" where
  "components (Element t ps cs) = concat (map components cs)"
| "components (Component n ps) = [(n, ps)]"
| "components (Text s) = []"

section \<open>The About page\<close>

text \<open>
  \<open>function About()\<close> declares no parameter; React calls a function component with
  the props object, which the body never reads. No component of the sources calls a
  hook or reads a variable other than its imports, so each one is a function from
  its props to the tree it returns.
\<close>

definition About :: "props \<Rightarrow> node" where
  "About p = Element ''div'' [(''className'', PStr ''overflow-x-hidden'')]
     [ Component ''Nav'' [],
       Component ''Hero'' [],
       Component ''WhyChoose'' [],
       Component ''MissionVision'' [],
       Component ''StriveFor'' [],
       Component ''Testimonials'' [],
       Component ''Team'' [],
       Component ''JoinUs'' [],
       Component ''FreshlyFooter'' [] ]"

section \<open>The Team section\<close>

text \<open>
  \<open>function Team()\<close>: a heading, two rows of three member cards written out
  inline, and a button. The quotation marks around each testimonial are characters
  of the JSX text.
\<close>

definition Team :: "props \<Rightarrow> node" where
  \<open>Team p = Element ''div'' [(''className'', PStr ''block '')]
     [ Element ''h5'' [(''className'', PStr ''text-[#008000] text-[45px] text-center font-inter pt-[150px] '')]
         [Text ''Meet Our Team''],
       Element ''div'' [(''className'', PStr ''flex flex-wrap  justify-between  w-[100%] space-y-[20px] lg:space-y-[0px]  '')]
         [ Element ''div'' [(''className'', PStr ''block mx-auto w-[204px] space-y-[12px] relative'')]
             [ Element ''div''
                 [(''className'', PStr ''mx-auto bg-cover bg-center w-[131px] h-[130px] flex-shrink-0 rounded-full border-[18px] border-[#008000]''),
                  (''style'', PStyle [(''backgroundImage'', ''url('/static/media/teamMember.png')'')])] [],
               Element ''p'' [(''className'', PStr ''text-black text-[24px] font-[700] font-inter'')] [Text ''Malaika Muchiri''],
               Element ''p'' [(''className'', PStr ''text-[#008000] text-[20px] font-[700] font-inter'')] [Text ''Chief Executive Officer''],
               Element ''p'' [(''className'', PStr ''text-black text-[16px] font-[300] w-[199px] font-josefin  leading-[20.8px] text-start'')]
                 [Text ''"Freshly Farm's expertise has empowered our local farmers, improving the quality and quantity of our community garden's harvests."''] ],
           Element ''div'' [(''className'', PStr ''block mx-auto w-[204px] space-y-[12px] relative'')]
             [ Element ''div''
                 [(''className'', PStr ''mx-auto bg-cover bg-center w-[131px] h-[130px] flex-shrink-0 rounded-full border-[18px] border-[#008000]''),
                  (''style'', PStyle [(''backgroundImage'', ''url('/static/media/teamMember.png')'')])] [],
               Element ''p'' [(''className'', PStr ''text-black text-[24px] font-[700] font-inter'')] [Text ''Malaika Muchiri''],
               Element ''p'' [(''className'', PStr ''text-[#008000] text-[20px] font-[700] font-inter'')] [Text ''Chief Executive Officer''],
               Element ''p'' [(''className'', PStr ''text-black text-[16px] font-[300] w-[199px] font-josefin  leading-[20.8px] text-start'')]
                 [Text ''"Lorem ipsum dolor sit amet, consectetur adipiscing elit, sed do eiusmod tempor incididunt ut labore et dolore magna aliqua."''] ],
           Element ''div'' [(''className'', PStr ''block mx-auto w-[204px] space-y-[12px] relative'')]
             [ Element ''div''
                 [(''className'', PStr ''mx-auto bg-cover bg-center w-[131px] h-[130px] flex-shrink-0 rounded-full border-[18px] border-[#008000]''),
                  (''style'', PStyle [(''backgroundImage'', ''url('/static/media/teamMember.png')'')])] [],
               Element ''p'' [(''className'', PStr ''text-black text-[24px] font-[700] font-inter'')] [Text ''Malaika Muchiri''],
               Element ''p'' [(''className'', PStr ''text-[#008000] text-[20px] font-[700] font-inter'')] [Text ''Chief Executive Officer''],
               Element ''p'' [(''className'', PStr ''text-black text-[16px] font-[300] w-[199px] font-josefin  leading-[20.8px] text-start'')]
                 [Text ''"Freshly Farm's expertise has empowered our local farmers, improving the quality and quantity of our community garden's harvests."''] ] ],
       Element ''div'' [(''className'', PStr ''flex flex-wrap justify-center mt-[71px] lg:space-x-[235px]  w-[100%]  space-y-[20px] lg:space-y-[0px]'')]
         [ Element ''div'' [(''className'', PStr ''block space-y-[12px] relative'')]
             [ Element ''div''
                 [(''className'', PStr ''mx-auto bg-cover bg-center w-[131px] h-[130px] flex-shrink-0 rounded-full border-[18px] border-[#008000]''),
                  (''style'', PStyle [(''backgroundImage'', ''url('/static/media/teamMember.png')'')])] [],
               Element ''p'' [(''className'', PStr ''text-black text-[24px] font-[700] font-inter'')] [Text ''Malaika Muchiri''],
               Element ''p'' [(''className'', PStr ''text-[#008000] text-[20px] font-[700] font-inter'')] [Text ''Chief Executive Officer''],
               Element ''p'' [(''className'', PStr ''text-black text-[16px] font-[300] w-[199px] font-josefin  leading-[20.8px] text-start'')]
                 [Text ''"Lorem ipsum dolor sit amet, consectetur adipiscing elit, sed do eiusmod tempor incididunt ut labore et dolore magna aliqua."''] ],
           Element ''div'' [(''className'', PStr ''block space-y-[12px] relative'')]
             [ Element ''div''
                 [(''className'', PStr ''mx-auto bg-cover bg-center w-[131px] h-[130px] flex-shrink-0 rounded-full border-[18px] border-[#008000]''),
                  (''style'', PStyle [(''backgroundImage'', ''url('/static/media/teamMember.png')'')])] [],
               Element ''p'' [(''className'', PStr ''text-black text-[24px] font-[700] font-inter'')] [Text ''Malaika Muchiri''],
               Element ''p'' [(''className'', PStr ''text-[#008000] text-[20px] font-[700] font-inter'')] [Text ''Chief Executive Officer''],
               Element ''p'' [(''className'', PStr ''text-black text-[16px] font-[300] w-[199px] font-josefin  leading-[20.8px] text-start'')]
                 [Text ''"Lorem ipsum dolor sit amet, consectetur adipiscing elit, sed do eiusmod tempor incididunt ut labore et dolore magna aliqua."''] ],
           Element ''div'' [(''className'', PStr ''block space-y-[12px] relative'')]
             [ Element ''div''
                 [(''className'', PStr ''mx-auto bg-cover bg-center w-[131px] h-[130px] flex-shrink-0 rounded-full border-[18px] border-[#008000]''),
                  (''style'', PStyle [(''backgroundImage'', ''url('/static/media/teamMember.png')'')])] [],
               Element ''p'' [(''className'', PStr ''text-black text-[24px] font-[700] font-inter'')] [Text ''Malaika Muchiri''],
               Element ''p'' [(''className'', PStr ''text-[#008000] text-[20px] font-[700] font-inter'')] [Text ''Chief Executive Officer''],
               Element ''p'' [(''className'', PStr ''text-black text-[16px] font-[300] w-[199px] font-josefin  leading-[20.8px] text-start'')]
                 [Text ''"Lorem ipsum dolor sit amet, consectetur adipiscing elit, sed do eiusmod tempor incididunt ut labore et dolore magna aliqua."''] ] ],
       Element ''div'' [(''className'', PStr ''flex justify-center mt-[120px]'')]
         [ Element ''button'' [(''className'', PStr ''w-[272px] h-[70px] bg-[#008000] rounded-[15px] mt-[62px] text-white text-[25px] border-none'')]
             [Text ''View All''] ] ]\<close>

section \<open>The farming systems section\<close>

text \<open>\<open>function FarmingSystems()\<close>: a heading and three FarmCard elements.\<close>

definition FarmingSystems :: "props \<Rightarrow> node" where
  "FarmingSystems p = Element ''div'' [(''className'', PStr ''block overflow-x-hidden'')]
     [ Element ''div'' [(''className'', PStr ''flex justify-center items-center'')]
         [ Element ''div'' [(''className'', PStr ''block'')]
             [ Element ''h3'' [(''className'', PStr ''text-[25px] lg:text-[40px] font-[900] font-inter text-[#008000] text-center'')]
                 [Text ''POPULAR FARMING SYSTEMS''],
               Element ''div'' [(''className'', PStr ''block space-y-[20px] lg:flex lg:space-x-[20px]'')]
                 [ Component ''FarmCard''
                     [(''number'', PNum 1), (''img'', PStr ''/static/media/veggieRack.png''), (''title'', PStr ''Hydroponics System''),
                      (''body'', PStr ''Lorem ipsum dolor sit amet, consectetur adipiscing elit, sed do eiusmod tempor incididunt ut labore et dolore magna aliqua. Ut enim ad minim veniam, quis nostrud exercitation ullamco laboris nisi ut.'')],
                   Component ''FarmCard''
                     [(''number'', PNum 2), (''img'', PStr ''/static/media/veggieRack2.png''), (''title'', PStr ''Vertical System''),
                      (''body'', PStr ''Lorem ipsum dolor sit amet, consectetur adipiscing elit, sed do eiusmod tempor incididunt ut labore et dolore magna aliqua. Ut enim ad minim veniam, quis nostrud exercitation ullamco laboris nisi ut.'')],
                   Component ''FarmCard''
                     [(''number'', PNum 4), (''img'', PStr ''/static/media/veggieFish.png''), (''title'', PStr ''Aquaponics System''),
                      (''body'', PStr ''Lorem ipsum dolor sit amet, consectetur adipiscing elit, sed do eiusmod tempor incididunt ut labore et dolore magna aliqua. Ut enim ad minim veniam, quis nostrud exercitation ullamco laboris nisi ut.'')] ] ] ] ]"

section \<open>The style configuration\<close>

text \<open>The object literal assigned to \<open>module.exports\<close>, keys in the order written.\<close>

datatype js_value =
    JStr string
  | JBool bool
  | JArr "js_value list"
  | JObj "(string \<times> js_value) list"

definition module_exports :: js_value where
  "module_exports = JObj
     [ (''purge'', JArr [JStr ''./src/**/*.{js,jsx,ts,tsx}'', JStr ''./public/index.html'']),
       (''darkMode'', JBool False),
       (''theme'', JObj [(''extend'', JObj [])]),
       (''variants'', JObj [(''extend'', JObj [])]),
       (''plugins'', JArr []),
       (''corePlugins'', JObj [(''preflight'', JBool False)]) ]"

section \<open>What React does with a child expression\<close>

text \<open>
  The text React shows for a number child: its decimal digits, with a minus sign
  for a negative one.
\<close>

fun digits :: "nat \<Rightarrow> string" where
  "digits n = (if n < 10 then [''0123456789'' ! n]
               else digits (n div 10) @ [''0123456789'' ! (n mod 10)])"

declare digits.simps [simp del]

definition number_text :: "int \<Rightarrow> string" where
  "number_text n = (if n < 0 then CHR ''-'' # digits (nat (- n)) else digits (nat n))"

datatype render_error = InvalidChild

text \<open>
  A child written \<open>{props.k}\<close>: a string or a number becomes a text child, an
  absent prop (\<open>undefined\<close>) and a function show nothing, and an object makes
  React throw (objects are not valid as a child).
\<close>

fun jsx_child :: "prop_value option \<Rightarrow> render_error + node list" where
  "jsx_child None = Inr []"
| "jsx_child (Some (PStr s)) = Inr [Text s]"
| "jsx_child (Some (PNum n)) = Inr [Text (number_text n)]"
| "jsx_child (Some (PStyle st)) = Inl InvalidChild"
| "jsx_child (Some (PFun f)) = Inr []"

text \<open>An attribute written \<open>k={props.k}\<close>: left out when the prop is absent.\<close>

fun jsx_attr :: "string \<Rightarrow> prop_value option \<Rightarrow> props" where
  "jsx_attr k None = []"
| "jsx_attr k (Some v) = [(k, v)]"

section \<open>The card component\<close>

text \<open>
  Modelled from the spec: the module \<open>./FarmCard\<close> that FarmingSystems imports is
  not among the sources. The spec describes the leaf card as a stateless component
  that renders one block from the record (number, image, title, body), showing an
  image, a number badge, a title and a body text, each prop directly, with no
  validation and no side effect, a missing field rendering as empty. The block is
  that and no more: one element per field, in that order, with no further
  attribute; the tags stand for whatever markup the module has. What can fail is
  React refusing an object as a child.
\<close>

definition FarmCard :: "props \<Rightarrow> render_error + node" where
  "FarmCard ps =
     (case jsx_child (map_of ps ''number'') of Inl e \<Rightarrow> Inl e | Inr nb \<Rightarrow>
      case jsx_child (map_of ps ''title'') of Inl e \<Rightarrow> Inl e | Inr tt \<Rightarrow>
      case jsx_child (map_of ps ''body'') of Inl e \<Rightarrow> Inl e | Inr bd \<Rightarrow>
        Inr (Element ''div'' []
          [ Element ''img'' (jsx_attr ''src'' (map_of ps ''img'')) [],
            Element ''span'' [] nb,
            Element ''h3'' [] tt,
            Element ''p'' [] bd ]))"

section \<open>Observing a rendered tree\<close>

text \<open>The texts of an attribute value, and of a whole tree in document order.\<close>

fun prop_texts :: "prop_value \<Rightarrow> string list" where
  "prop_texts (PStr s) = [s]"
| "prop_texts (PNum n) = [number_text n]"
| "prop_texts (PStyle st) = map snd st"
| "prop_texts (PFun f) = []"

fun leaves :: "node \<Rightarrow> string list" where
  "leaves (Element t ps cs) = concat (map (\<lambda>kv. prop_texts (snd kv)) ps) @ concat (map leaves cs)"
| "leaves (Component n ps) = concat (map (\<lambda>kv. prop_texts (snd kv)) ps)"
| "leaves (Text s) = [s]"

text \<open>
  The callbacks of a tree: every attribute whose value is a function or whose name
  is that of an event handler (\<open>on...\<close>), with the tag or component it sits on.
\<close>

fun is_callback :: "string \<times> prop_value \<Rightarrow> bool" where
  "is_callback (k, PFun f) = True"
| "is_callback (k, v) = (take 2 k = ''on'')"

fun callbacks :: "node \<Rightarrow> (string \<times> string) list" where
  "callbacks (Element t ps cs) =
     map (\<lambda>kv. (t, fst kv)) (filter is_callback ps) @ concat (map callbacks cs)"
| "callbacks (Component n ps) = map (\<lambda>kv. (n, fst kv)) (filter is_callback ps)"
| "callbacks (Text s) = []"

text \<open>The host elements of a tree with a given tag, in document order.\<close>

fun elements :: "string \<Rightarrow> node \<Rightarrow> node list" where
  "elements g (Element t ps cs) =
     (if t = g then [Element t ps cs] else []) @ concat (map (elements g) cs)"
| "elements g (Component n ps) = []"
| "elements g (Text s) = []"

fun attrs :: "node \<Rightarrow> props" where
  "attrs (Element t ps cs) = ps"
| "attrs (Component n ps) = ps"
| "attrs (Text s) = []"

text \<open>
  The kind of a prop as JavaScript's \<open>typeof\<close> names it; \<open>undefined\<close> for an
  absent one.
\<close>

fun typeof :: "prop_value option \<Rightarrow> string" where
  "typeof None = ''undefined''"
| "typeof (Some (PStr s)) = ''string''"
| "typeof (Some (PNum n)) = ''number''"
| "typeof (Some (PStyle st)) = ''object''"
| "typeof (Some (PFun f)) = ''function''"

text \<open>
  A member card of the Team section as it is written inline: a block of an avatar
  (an element with a background image and no child) and three paragraphs of one text
  each: the name, the role and the testimonial.
\<close>

record member =
  member_image :: string
  member_name :: string
  member_role :: string
  member_body :: string

definition background_image :: "node \<Rightarrow> string option" where
  "background_image n =
     (case map_of (attrs n) ''style'' of
        Some (PStyle st) \<Rightarrow> map_of st ''backgroundImage''
      | _ \<Rightarrow> None)"

definition member_of :: "node \<Rightarrow> member option" where
  "member_of n =
     (case children n of
        [a, x, y, z] \<Rightarrow>
          (case (background_image a, children a, children x, children y, children z) of
             (Some u, [], [Text nm], [Text rl], [Text bd]) \<Rightarrow>
               Some \<lparr>member_image = u, member_name = nm, member_role = rl, member_body = bd\<rparr>
           | _ \<Rightarrow> None)
      | _ \<Rightarrow> None)"

text \<open>The member cards of one row, and the rows of a section that hold any.\<close>

definition member_cards :: "node \<Rightarrow> member list" where
  "member_cards row = List.map_filter member_of (children row)"

definition card_rows :: "node \<Rightarrow> member list list" where
  "card_rows root = filter (\<lambda>r. r \<noteq> []) (map member_cards (children root))"

text \<open>The CSS value that refers to an image path.\<close>

definition css_url :: "string \<Rightarrow> string" where
  "css_url path = ''url('' @ [CHR 0x27] @ path @ [CHR 0x27] @ '')''"

text \<open>
  The settings of a configuration object: every string, boolean and non-empty array
  in it, with the path of keys that leads to it. Empty objects and empty arrays set
  nothing.
\<close>

fun settings :: "js_value \<Rightarrow> (string list \<times> js_value) list" where
  "settings (JObj kvs) = concat (map (\<lambda>kv. map (\<lambda>pv. (fst kv # fst pv, snd pv)) (settings (snd kv))) kvs)"
| "settings (JArr xs) = (if xs = [] then [] else [([], JArr xs)])"
| "settings (JStr s) = [([], JStr s)]"
| "settings (JBool b) = [([], JBool b)]"

text \<open>The four fields of a member card, and the two testimonials the section uses.\<close>

definition member_fields :: "member \<Rightarrow> string \<times> string \<times> string \<times> string" where
  "member_fields m = (member_image m, member_name m, member_role m, member_body m)"

definition testimonial_freshly :: string where
  \<open>testimonial_freshly = ''"Freshly Farm's expertise has empowered our local farmers, improving the quality and quantity of our community garden's harvests."''\<close>

definition testimonial_lorem :: string where
  \<open>testimonial_lorem = ''"Lorem ipsum dolor sit amet, consectetur adipiscing elit, sed do eiusmod tempor incididunt ut labore et dolore magna aliqua."''\<close>

section \<open>Helper lemmas\<close>

lemma components_cards: "concat (map (components \<circ> Component c) rs) = map (Pair c) rs"
  by (induction rs) simp_all

text \<open>The two rows of the Team section, card by card.\<close>

lemma Team_card_rows:
  "map (map member_fields) (card_rows (Team p)) =
     [[(css_url ''/static/media/teamMember.png'', ''Malaika Muchiri'', ''Chief Executive Officer'', testimonial_freshly),
       (css_url ''/static/media/teamMember.png'', ''Malaika Muchiri'', ''Chief Executive Officer'', testimonial_lorem),
       (css_url ''/static/media/teamMember.png'', ''Malaika Muchiri'', ''Chief Executive Officer'', testimonial_freshly)],
      [(css_url ''/static/media/teamMember.png'', ''Malaika Muchiri'', ''Chief Executive Officer'', testimonial_lorem),
       (css_url ''/static/media/teamMember.png'', ''Malaika Muchiri'', ''Chief Executive Officer'', testimonial_lorem),
       (css_url ''/static/media/teamMember.png'', ''Malaika Muchiri'', ''Chief Executive Officer'', testimonial_lorem)]]"
  by (simp add: Team_def card_rows_def member_cards_def member_of_def background_image_def
        List.map_filter_simps testimonial_freshly_def testimonial_lorem_def css_url_def member_fields_def)

lemma Team_row_lengths: "map length (card_rows (Team p)) = [3, 3]"
proof -
  have "map length (card_rows (Team p)) = map length (map (map member_fields) (card_rows (Team p)))"
    by (simp add: comp_def)
  then show ?thesis
    by (simp only: Team_card_rows) simp
qed

lemma Team_cards:
  "map member_fields (concat (card_rows (Team p))) =
     [(css_url ''/static/media/teamMember.png'', ''Malaika Muchiri'', ''Chief Executive Officer'', testimonial_freshly),
      (css_url ''/static/media/teamMember.png'', ''Malaika Muchiri'', ''Chief Executive Officer'', testimonial_lorem),
      (css_url ''/static/media/teamMember.png'', ''Malaika Muchiri'', ''Chief Executive Officer'', testimonial_freshly),
      (css_url ''/static/media/teamMember.png'', ''Malaika Muchiri'', ''Chief Executive Officer'', testimonial_lorem),
      (css_url ''/static/media/teamMember.png'', ''Malaika Muchiri'', ''Chief Executive Officer'', testimonial_lorem),
      (css_url ''/static/media/teamMember.png'', ''Malaika Muchiri'', ''Chief Executive Officer'', testimonial_lorem)]"
proof -
  have "map member_fields (concat (card_rows (Team p))) = concat (map (map member_fields) (card_rows (Team p)))"
    by (simp add: map_concat)
  then show ?thesis
    by (simp only: Team_card_rows) simp
qed

lemma Team_bodies:
  "map member_body (concat (card_rows (Team p))) =
     [testimonial_freshly, testimonial_lorem, testimonial_freshly,
      testimonial_lorem, testimonial_lorem, testimonial_lorem]"
proof -
  have "map member_body (concat (card_rows (Team p)))
      = map (\<lambda>f. snd (snd (snd f))) (map member_fields (concat (card_rows (Team p))))"
    by (simp add: member_fields_def comp_def)
  then show ?thesis
    by (simp only: Team_cards) simp
qed

lemma Team_identities:
  "map (\<lambda>m. (member_name m, member_role m, member_image m)) (concat (card_rows (Team p)))
     = replicate 6 (''Malaika Muchiri'', ''Chief Executive Officer'', css_url ''/static/media/teamMember.png'')"
proof -
  have "map (\<lambda>m. (member_name m, member_role m, member_image m)) (concat (card_rows (Team p)))
      = map (\<lambda>f. (fst (snd f), fst (snd (snd f)), fst f)) (map member_fields (concat (card_rows (Team p))))"
    by (simp add: member_fields_def comp_def)
  then show ?thesis
    by (simp only: Team_cards) (simp add: eval_nat_numeral)
qed

lemma testimonials_differ: "testimonial_freshly \<noteq> testimonial_lorem"
  by (simp add: testimonial_freshly_def testimonial_lorem_def)

lemma jsx_child_shown:
  assumes "typeof v \<noteq> ''object''"
  obtains cs where "jsx_child v = Inr cs" and "v = None \<longrightarrow> cs = []"
  using assms by (cases v rule: jsx_child.cases) simp_all

lemma number_text_1: "number_text 1 = ''1''"
  by (simp add: number_text_def digits.simps)

lemma number_text_2: "number_text 2 = ''2''"
  by (simp add: number_text_def digits.simps)

lemma number_text_4: "number_text 4 = ''4''"
  by (simp add: number_text_def digits.simps)

section \<open>Properties\<close>

text \<open>
  C1. Whatever props the About page is invoked with, the navigation, the hero, the
  mission/vision section, the team section, the join-us section and the footer each
  appear once in its output, in that relative order: restricted to those six, the
  component elements of the page in document order are exactly that sequence.
\<close>

theorem About_section_order:
  "filter (\<lambda>n. n \<in> set [''Nav'', ''Hero'', ''MissionVision'', ''Team'', ''JoinUs'', ''FreshlyFooter''])
     (map fst (components (About p)))
   = [''Nav'', ''Hero'', ''MissionVision'', ''Team'', ''JoinUs'', ''FreshlyFooter'']"
  by (simp add: About_def)

text \<open>
  C2, as stated: every field of every record passed to a card component is a
  string. It fails at the first FarmCard of the farming systems section, whose
  \<open>number\<close> is written \<open>{1}\<close>: a number.
\<close>

theorem FarmCard_number_not_string:
  "typeof (map_of (snd (components (FarmingSystems []) ! 0)) ''number'') \<noteq> ''string''"
  by (simp add: FarmingSystems_def)

text \<open>
  C2, amended. Each of the three records passed to FarmCard has exactly the four
  fields number, img, title and body, in that order; img, title and body are
  strings and number is a number.
\<close>

theorem FarmCard_records_field_kinds:
  "map (\<lambda>c. map (\<lambda>kv. (fst kv, typeof (Some (snd kv)))) (snd c)) (components (FarmingSystems p))
   = replicate 3 [(''number'', ''number''), (''img'', ''string''), (''title'', ''string''), (''body'', ''string'')]"
  by (simp add: FarmingSystems_def numeral_3_eq_3)

text \<open>
  C3. A container whose children are the card elements of N records holds exactly
  those N card blocks, in the order of the records. The farming systems section
  renders exactly three FarmCard blocks, titled Hydroponics System, Vertical System
  and Aquaponics System in that order; the Team section renders its six member
  cards in the order they are written.
\<close>

theorem sections_render_cards_in_order:
  "components (Element t ps (map (Component c) rs)) = map (Pair c) rs
   \<and> length (components (Element t ps (map (Component c) rs))) = length rs
   \<and> length (components (FarmingSystems p)) = 3
   \<and> map (\<lambda>c. (fst c, map_of (snd c) ''title'')) (components (FarmingSystems p))
       = [(''FarmCard'', Some (PStr ''Hydroponics System'')),
          (''FarmCard'', Some (PStr ''Vertical System'')),
          (''FarmCard'', Some (PStr ''Aquaponics System''))]
   \<and> map member_body (concat (card_rows (Team p)))
       = [testimonial_freshly, testimonial_lorem, testimonial_freshly,
          testimonial_lorem, testimonial_lorem, testimonial_lorem]"
proof (intro conjI)
  show "components (Element t ps (map (Component c) rs)) = map (Pair c) rs"
    by (simp add: components_cards)
  then show "length (components (Element t ps (map (Component c) rs))) = length rs"
    by simp
  show "length (components (FarmingSystems p)) = 3"
    by (simp add: FarmingSystems_def)
  show "map (\<lambda>c. (fst c, map_of (snd c) ''title'')) (components (FarmingSystems p))
       = [(''FarmCard'', Some (PStr ''Hydroponics System'')),
          (''FarmCard'', Some (PStr ''Vertical System'')),
          (''FarmCard'', Some (PStr ''Aquaponics System''))]"
    by (simp add: FarmingSystems_def)
  show "map member_body (concat (card_rows (Team p)))
       = [testimonial_freshly, testimonial_lorem, testimonial_freshly,
          testimonial_lorem, testimonial_lorem, testimonial_lorem]"
    by (rule Team_bodies)
qed

text \<open>
  C4. For every card record that supplies number, image, title and body, the texts
  of the rendered card block are exactly the image path, the number, the title and
  the body, one each and unchanged. In particular the block of the first FarmCard
  record has one image, which refers to \<open>/static/media/veggieRack.png\<close>
  unchanged, shows the title Hydroponics System, and holds the path, the number and
  the title once each; the block of each of the three FarmCard records holds the
  text of each of its four fields exactly once; and the first member card written
  in the Team section holds its image reference, name, role and testimonial once
  each.
\<close>

theorem card_shows_each_field_once:
  assumes "map_of ps ''number'' = Some (PNum n)" and "map_of ps ''img'' = Some (PStr i)"
    and "map_of ps ''title'' = Some (PStr t)" and "map_of ps ''body'' = Some (PStr b)"
  shows "map_sum id leaves (FarmCard ps) = Inr [i, number_text n, t, b]
    \<and> map_sum id (\<lambda>blk. (map attrs (elements ''img'' blk), map children (elements ''h3'' blk),
          map (count_list (leaves blk)) [''/static/media/veggieRack.png'', ''1'', ''Hydroponics System'']))
        (FarmCard (snd (components (FarmingSystems p) ! 0)))
      = Inr ([[(''src'', PStr ''/static/media/veggieRack.png'')]], [[Text ''Hydroponics System'']], [1, 1, 1])
    \<and> map (\<lambda>c. map_sum id (\<lambda>blk. map (count_list (leaves blk)) (concat (map (\<lambda>kv. prop_texts (snd kv)) (snd c))))
          (FarmCard (snd c))) (components (FarmingSystems p))
      = [Inr [1, 1, 1, 1], Inr [1, 1, 1, 1], Inr [1, 1, 1, 1]]
    \<and> map (count_list (leaves (children (children (Team p) ! 1) ! 0)))
        [css_url ''/static/media/teamMember.png'', ''Malaika Muchiri'', ''Chief Executive Officer'', testimonial_freshly]
      = [1, 1, 1, 1]"
proof (intro conjI)
  show "map (\<lambda>c. map_sum id (\<lambda>blk. map (count_list (leaves blk)) (concat (map (\<lambda>kv. prop_texts (snd kv)) (snd c))))
          (FarmCard (snd c))) (components (FarmingSystems p))
      = [Inr [1, 1, 1, 1], Inr [1, 1, 1, 1], Inr [1, 1, 1, 1]]"
    by (simp add: FarmingSystems_def FarmCard_def number_text_1 number_text_2 number_text_4)
  show "map_sum id leaves (FarmCard ps) = Inr [i, number_text n, t, b]"
    using assms by (simp add: FarmCard_def)
  show "map_sum id (\<lambda>blk. (map attrs (elements ''img'' blk), map children (elements ''h3'' blk),
          map (count_list (leaves blk)) [''/static/media/veggieRack.png'', ''1'', ''Hydroponics System'']))
        (FarmCard (snd (components (FarmingSystems p) ! 0)))
      = Inr ([[(''src'', PStr ''/static/media/veggieRack.png'')]], [[Text ''Hydroponics System'']], [1, 1, 1])"
    by (simp add: FarmingSystems_def FarmCard_def number_text_1)
  show "map (count_list (leaves (children (children (Team p) ! 1) ! 0)))
        [css_url ''/static/media/teamMember.png'', ''Malaika Muchiri'', ''Chief Executive Officer'', testimonial_freshly]
      = [1, 1, 1, 1]"
    by (simp add: Team_def css_url_def testimonial_freshly_def)
qed

text \<open>The second FarmCard record of the farming systems section, rendered.\<close>

theorem card_shows_each_field_once_witness:
  "map_of (snd (components (FarmingSystems []) ! 1)) ''number'' = Some (PNum 2)
   \<and> map_of (snd (components (FarmingSystems []) ! 1)) ''img'' = Some (PStr ''/static/media/veggieRack2.png'')
   \<and> map_of (snd (components (FarmingSystems []) ! 1)) ''title'' = Some (PStr ''Vertical System'')
   \<and> map_of (snd (components (FarmingSystems []) ! 1)) ''body'' = Some (PStr ''Lorem ipsum dolor sit amet, consectetur adipiscing elit, sed do eiusmod tempor incididunt ut labore et dolore magna aliqua. Ut enim ad minim veniam, quis nostrud exercitation ullamco laboris nisi ut.'')
   \<and> map_sum id leaves (FarmCard (snd (components (FarmingSystems []) ! 1)))
     = Inr [''/static/media/veggieRack2.png'', ''2'', ''Vertical System'',
            ''Lorem ipsum dolor sit amet, consectetur adipiscing elit, sed do eiusmod tempor incididunt ut labore et dolore magna aliqua. Ut enim ad minim veniam, quis nostrud exercitation ullamco laboris nisi ut.'']"
proof -
  have h1: "map_of (snd (components (FarmingSystems []) ! 1)) ''number'' = Some (PNum 2)"
    by (simp add: FarmingSystems_def)
  have h2: "map_of (snd (components (FarmingSystems []) ! 1)) ''img'' = Some (PStr ''/static/media/veggieRack2.png'')"
    by (simp add: FarmingSystems_def)
  have h3: "map_of (snd (components (FarmingSystems []) ! 1)) ''title'' = Some (PStr ''Vertical System'')"
    by (simp add: FarmingSystems_def)
  have h4: "map_of (snd (components (FarmingSystems []) ! 1)) ''body'' = Some (PStr ''Lorem ipsum dolor sit amet, consectetur adipiscing elit, sed do eiusmod tempor incididunt ut labore et dolore magna aliqua. Ut enim ad minim veniam, quis nostrud exercitation ullamco laboris nisi ut.'')"
    by (simp add: FarmingSystems_def)
  from card_shows_each_field_once [OF h1 h2 h3 h4, of "[]"]
  have "map_sum id leaves (FarmCard (snd (components (FarmingSystems []) ! 1)))
     = Inr [''/static/media/veggieRack2.png'', number_text 2, ''Vertical System'',
            ''Lorem ipsum dolor sit amet, consectetur adipiscing elit, sed do eiusmod tempor incididunt ut labore et dolore magna aliqua. Ut enim ad minim veniam, quis nostrud exercitation ullamco laboris nisi ut.'']"
    by (rule conjunct1)
  then have "map_sum id leaves (FarmCard (snd (components (FarmingSystems []) ! 1)))
     = Inr [''/static/media/veggieRack2.png'', ''2'', ''Vertical System'',
            ''Lorem ipsum dolor sit amet, consectetur adipiscing elit, sed do eiusmod tempor incididunt ut labore et dolore magna aliqua. Ut enim ad minim veniam, quis nostrud exercitation ullamco laboris nisi ut.'']"
    by (simp only: number_text_2)
  with h1 h2 h3 h4 show ?thesis
    by (intro conjI)
qed

text \<open>
  C6. For every card record (none of number, title and body is an object), the
  card renders without throwing, and every field that is absent leaves its position
  empty: the image element carries no source, the badge, the title or the body
  element has no child.
\<close>

theorem FarmCard_absent_field_empty:
  assumes "typeof (map_of ps ''number'') \<noteq> ''object''"
    and "typeof (map_of ps ''title'') \<noteq> ''object''"
    and "typeof (map_of ps ''body'') \<noteq> ''object''"
  shows "\<exists>a nb tt bd.
      FarmCard ps = Inr (Element ''div'' []
        [Element ''img'' a [], Element ''span'' [] nb, Element ''h3'' [] tt, Element ''p'' [] bd])
      \<and> (map_of ps ''img'' = None \<longrightarrow> a = [])
      \<and> (map_of ps ''number'' = None \<longrightarrow> nb = [])
      \<and> (map_of ps ''title'' = None \<longrightarrow> tt = [])
      \<and> (map_of ps ''body'' = None \<longrightarrow> bd = [])"
proof -
  from assms(1) obtain nb where nb: "jsx_child (map_of ps ''number'') = Inr nb"
    "map_of ps ''number'' = None \<longrightarrow> nb = []" by (rule jsx_child_shown)
  from assms(2) obtain tt where tt: "jsx_child (map_of ps ''title'') = Inr tt"
    "map_of ps ''title'' = None \<longrightarrow> tt = []" by (rule jsx_child_shown)
  from assms(3) obtain bd where bd: "jsx_child (map_of ps ''body'') = Inr bd"
    "map_of ps ''body'' = None \<longrightarrow> bd = []" by (rule jsx_child_shown)
  have a: "map_of ps ''img'' = None \<longrightarrow> jsx_attr ''src'' (map_of ps ''img'') = []"
    by simp
  have "FarmCard ps = Inr (Element ''div'' []
        [Element ''img'' (jsx_attr ''src'' (map_of ps ''img'')) [], Element ''span'' [] nb,
         Element ''h3'' [] tt, Element ''p'' [] bd])"
    by (simp add: FarmCard_def nb(1) tt(1) bd(1))
  with a nb(2) tt(2) bd(2) show ?thesis
    by (intro exI conjI)
qed

text \<open>The first FarmCard record without its body: the body element is empty.\<close>

theorem FarmCard_absent_field_empty_witness:
  "typeof (map_of [(''number'', PNum 1), (''img'', PStr ''/static/media/veggieRack.png''), (''title'', PStr ''Hydroponics System'')] ''number'') \<noteq> ''object''
   \<and> typeof (map_of [(''number'', PNum 1), (''img'', PStr ''/static/media/veggieRack.png''), (''title'', PStr ''Hydroponics System'')] ''title'') \<noteq> ''object''
   \<and> typeof (map_of [(''number'', PNum 1), (''img'', PStr ''/static/media/veggieRack.png''), (''title'', PStr ''Hydroponics System'')] ''body'') \<noteq> ''object''
   \<and> map_of [(''number'', PNum 1), (''img'', PStr ''/static/media/veggieRack.png''), (''title'', PStr ''Hydroponics System'')] ''body'' = None
   \<and> FarmCard [(''number'', PNum 1), (''img'', PStr ''/static/media/veggieRack.png''), (''title'', PStr ''Hydroponics System'')]
     = Inr (Element ''div'' []
        [Element ''img'' [(''src'', PStr ''/static/media/veggieRack.png'')] [], Element ''span'' [] [Text ''1''],
         Element ''h3'' [] [Text ''Hydroponics System''], Element ''p'' [] []])"
proof -
  let ?r = "[(''number'', PNum 1), (''img'', PStr ''/static/media/veggieRack.png''), (''title'', PStr ''Hydroponics System'')]"
  have h1: "typeof (map_of ?r ''number'') \<noteq> ''object''" by simp
  have h2: "typeof (map_of ?r ''title'') \<noteq> ''object''" by simp
  have h3: "typeof (map_of ?r ''body'') \<noteq> ''object''" by simp
  have h4: "map_of ?r ''body'' = None" by simp
  from FarmCard_absent_field_empty [OF h1 h2 h3] obtain a nb tt bd where
    blk: "FarmCard ?r = Inr (Element ''div'' []
        [Element ''img'' a [], Element ''span'' [] nb, Element ''h3'' [] tt, Element ''p'' [] bd])"
    and bd: "map_of ?r ''body'' = None \<longrightarrow> bd = []"
    by (elim exE conjE)
  from bd h4 have "bd = []" by (rule mp)
  moreover from blk have "a = [(''src'', PStr ''/static/media/veggieRack.png'')]"
    and "nb = [Text ''1'']" and "tt = [Text ''Hydroponics System'']"
    by (simp_all add: FarmCard_def number_text_1)
  ultimately have "FarmCard ?r = Inr (Element ''div'' []
        [Element ''img'' [(''src'', PStr ''/static/media/veggieRack.png'')] [], Element ''span'' [] [Text ''1''],
         Element ''h3'' [] [Text ''Hydroponics System''], Element ''p'' [] []])"
    using blk by simp
  with h1 h2 h3 h4 show ?thesis
    by (intro conjI)
qed

text \<open>
  C7. What the style configuration sets is exactly this: the paths to scan are the
  glob over the JavaScript and TypeScript files under \<open>./src\<close> and
  \<open>./public/index.html\<close>, the dark mode is off (\<open>false\<close>) and the preflight
  reset is off. The keys theme, variants and plugins are there and set nothing.
\<close>

theorem module_exports_settings:
  "settings module_exports =
     [([''purge''], JArr [JStr ''./src/**/*.{js,jsx,ts,tsx}'', JStr ''./public/index.html'']),
      ([''darkMode''], JBool False),
      ([''corePlugins'', ''preflight''], JBool False)]"
  by (simp add: module_exports_def)

text \<open>
  C8. No element of the page or of either section carries an event handler or any
  other function: nothing is passed down through which data could come back up. The
  one button, View All in the Team section, has a class name and nothing else.
\<close>

theorem no_callbacks:
  "callbacks (About p) = [] \<and> callbacks (Team p) = [] \<and> callbacks (FarmingSystems p) = []
   \<and> map (\<lambda>b. (attrs b, children b)) (elements ''button'' (Team p))
       = [([(''className'', PStr ''w-[272px] h-[70px] bg-[#008000] rounded-[15px] mt-[62px] text-white text-[25px] border-none'')],
           [Text ''View All''])]"
  by (simp add: About_def Team_def FarmingSystems_def)

text \<open>
  C9. The numbers of the three FarmCard records are 1, 2 and 4, in that order: the
  third card carries 4, not 3.
\<close>

theorem FarmCard_ordinals:
  "map (\<lambda>c. map_of (snd c) ''number'') (components (FarmingSystems p))
   = [Some (PNum 1), Some (PNum 2), Some (PNum 4)]"
  by (simp add: FarmingSystems_def)

text \<open>
  C10. The Team section renders two rows of three member cards, six in all; every
  card has the name Malaika Muchiri, the role Chief Executive Officer and the image
  \<open>/static/media/teamMember.png\<close>; the testimonials are two distinct strings
  and no other.
\<close>

theorem Team_six_identical_members:
  "map length (card_rows (Team p)) = [3, 3]
   \<and> length (concat (card_rows (Team p))) = 6
   \<and> map (\<lambda>m. (member_name m, member_role m, member_image m)) (concat (card_rows (Team p)))
       = replicate 6 (''Malaika Muchiri'', ''Chief Executive Officer'', css_url ''/static/media/teamMember.png'')
   \<and> set (map member_body (concat (card_rows (Team p)))) = {testimonial_freshly, testimonial_lorem}
   \<and> testimonial_freshly \<noteq> testimonial_lorem"
proof (intro conjI)
  show "map length (card_rows (Team p)) = [3, 3]"
    by (rule Team_row_lengths)
  have "length (map member_body (concat (card_rows (Team p)))) = 6"
    by (simp only: Team_bodies) simp
  then show "length (concat (card_rows (Team p))) = 6"
    by simp
  show "map (\<lambda>m. (member_name m, member_role m, member_image m)) (concat (card_rows (Team p)))
       = replicate 6 (''Malaika Muchiri'', ''Chief Executive Officer'', css_url ''/static/media/teamMember.png'')"
    by (rule Team_identities)
  show "set (map member_body (concat (card_rows (Team p)))) = {testimonial_freshly, testimonial_lorem}"
    by (simp only: Team_bodies) auto
  show "testimonial_freshly \<noteq> testimonial_lorem"
    by (rule testimonials_differ)
qed

end
